theory Spec2Isabelle
  imports Complex_Main
begin

section \<open>Python values and exceptions\<close>

text \<open>
  The embedding follows \<^verbatim>\<open>tensorpack/models/conv2d.py\<close>. The module builds a
  TensorFlow graph: every call of a framework primitive adds a node to the graph and returns
  a symbolic tensor, so tensors are modelled as terms over the primitives that the module
  calls. An exception is a value of type \<open>error\<close>; a function that may raise returns
  \<open>error + 'a\<close>, with \<open>Inl\<close> for the exception. The model is of the bodies of the
  module's functions; the decorators \<open>layer_register\<close> and \<open>convert_to_tflayer_args\<close>
  that wrap them are defined in other modules.
\<close>

datatype error =
    AssertionError string
  | TypeError string
  | NameError string
  | ValueError string
  | ZeroDivisionError
  | IndexError
  | OtherError string

text \<open>
  An entry of a shape list: an int, a float, or \<open>None\<close>. \<open>PFloat q\<close> stands for the
  float whose value is the rational \<open>q\<close>: true division of two ints is correctly
  rounded, hence exact whenever the quotient is an integer below \<open>2 ^ 53\<close>, as every
  channel count is.
\<close>

datatype pynum = PInt int | PFloat rat | PNone

text \<open>A size argument (\<open>kernel_size\<close>, \<open>strides\<close>, \<open>dilation_rate\<close>): an int or a sequence of ints.\<close>

datatype pyarg = AInt int | ASeq "int list"

datatype dtype = Float16 | Float32 | Float64 | OtherDType nat

datatype initializer =
    ContribVarianceScaling rat "int option"
  | KerasVarianceScaling rat string "int option"
  | ZerosInitializer
  | UserInitializer nat

definition e_bind :: "error + 'a \<Rightarrow> ('a \<Rightarrow> error + 'b) \<Rightarrow> error + 'b" where
  "e_bind m f = (case m of Inl e \<Rightarrow> Inl e | Inr x \<Rightarrow> f x)"

definition py_assert :: "bool \<Rightarrow> string \<Rightarrow> error + unit" where
  "py_assert c msg = (if c then Inr () else Inl (AssertionError msg))"

text \<open>\<open>a % b\<close> on ints: floor modulus, \<open>ZeroDivisionError\<close> for a zero divisor.\<close>

definition py_mod :: "int \<Rightarrow> int \<Rightarrow> error + int" where
  "py_mod a b = (if b = 0 then Inl ZeroDivisionError else Inr (a mod b))"

text \<open>\<open>a / b\<close> on ints: true division, giving a float.\<close>

definition py_truediv :: "int \<Rightarrow> int \<Rightarrow> error + pynum" where
  "py_truediv a b = (if b = 0 then Inl ZeroDivisionError else Inr (PFloat (of_int a / of_int b)))"

text \<open>\<open>xs[i]\<close> for a non-negative index.\<close>

definition py_index :: "'a list \<Rightarrow> nat \<Rightarrow> error + 'a" where
  "py_index xs i = (if i < length xs then Inr (xs ! i) else Inl IndexError)"

definition upper_char :: "char \<Rightarrow> char" where
  "upper_char c = (let n = (of_char c :: nat) in if 97 \<le> n \<and> n \<le> 122 then char_of (n - 32) else c)"

text \<open>\<open>str.upper()\<close> on the ASCII strings that name a padding mode.\<close>

definition py_upper :: "string \<Rightarrow> string" where
  "py_upper s = map upper_char s"

text \<open>Comparison of version tuples \<open>(major, minor)\<close>, as Python compares tuples.\<close>

type_synonym version = "nat \<times> nat"

definition ver_le :: "version \<Rightarrow> version \<Rightarrow> bool" where
  "ver_le a b = (fst a < fst b \<or> (fst a = fst b \<and> snd a \<le> snd b))"

definition ver_ge :: "version \<Rightarrow> version \<Rightarrow> bool" where
  "ver_ge a b = ver_le b a"

section \<open>Tensors, layers and the graph\<close>

text \<open>
  The input of a layer is a 4-D tensor; its static shape gives each dimension, \<open>None\<close>
  where it is unknown.
\<close>

type_synonym shape4 = "int option \<times> int option \<times> int option \<times> int option"

record in_tensor =
  tensor_id :: nat
  static_shape :: shape4

text \<open>\<open>shape[i]\<close> for the indices the module uses: 0 to 3 (and \<open>-1\<close>, which is 3).\<close>

fun dim_at :: "shape4 \<Rightarrow> nat \<Rightarrow> int option" where
  "dim_at (d0, d1, d2, d3) i = (if i = 0 then d0 else if i = 1 then d1 else if i = 2 then d2 else d3)"

text \<open>The keyword arguments of the framework layers \<open>tf.layers.Conv2D\<close> and \<open>tf.layers.Conv2DTranspose\<close>.\<close>

record layer_config =
  lc_filters :: int
  lc_kernel_size :: pyarg
  lc_strides :: pyarg
  lc_padding :: string
  lc_data_format :: string
  lc_dilation_rate :: "int list option"
  lc_activation :: "nat option"
  lc_use_bias :: bool
  lc_kernel_initializer :: initializer
  lc_bias_initializer :: initializer
  lc_kernel_regularizer :: "nat option"
  lc_bias_regularizer :: "nat option"
  lc_activity_regularizer :: "nat option"

datatype layer = LayersConv2D layer_config | LayersConv2DTranspose layer_config

text \<open>The keyword arguments built for \<open>tf.nn.conv2d\<close>: \<open>data_format\<close> and, from version 1.5, \<open>dilations\<close>.\<close>

record conv_kwargs =
  kw_data_format :: string
  kw_dilations :: "int list option"

text \<open>An entry of the dynamic shape \<open>tf.shape(inputs)\<close>, a Python int, or a product of the two.\<close>

datatype scalar = ShapeDyn in_tensor nat | SInt int | SMul scalar int

datatype tensor =
    TInput in_tensor
  | TVariable string "pynum list" initializer "tensor option"
  | TLayerKernel layer
  | TLayerBias layer
  | TLayerApply layer tensor
  | TIdentity tensor string
  | TConv2d tensor tensor "int list" string conv_kwargs
  | TSplit tensor int nat nat
  | TConcat "tensor list" nat
  | TBiasAdd tensor tensor string
  | TActivation nat tensor
  | TCast tensor "dtype option"
  | TConv2dTranspose tensor tensor "scalar list" "int list" string string
  | TSetShape tensor "int option list"

text \<open>
  What a call adds to the graph besides operation nodes: a variable requested with
  \<open>tf.get_variable(name, shape, initializer=...)\<close> (with the custom getter of the
  enclosing scope, if any), or a framework layer applied under
  \<open>rename_get_variable(mapping)\<close>, which creates the layer's variables itself.
\<close>

datatype effect =
    GetVariable string "pynum list" initializer "tensor option"
  | LayerApply layer "(string \<times> string) list"

text \<open>The returned tensor with its \<open>variables\<close> attribute, a \<open>VariableHolder\<close>.\<close>

record layer_output =
  ret_tensor :: tensor
  ret_variables :: "(string \<times> tensor) list"

section \<open>The custom variable getter\<close>

text \<open>The arguments with which the wrapped getter is called.\<close>

record getter_args =
  ga_name :: string
  ga_shape :: "pynum list option"
  ga_dtype :: "dtype option"
  ga_initializer :: "initializer option"
  ga_regularizer :: "nat option"
  ga_trainable :: bool
  ga_extra :: "nat list"

type_synonym getter = "getter_args \<Rightarrow> error + tensor"

text \<open>
  \<open>float32_variable_storage_getter(getter, name, shape=None, dtype=None, initializer=None,
  regularizer=None, trainable=True, *args, **kwargs)\<close>. The two leading parameters have no
  default: a call that leaves one out raises \<open>TypeError\<close> when the arguments are bound.
\<close>

text \<open>Line 23, and the arguments of the call of lines 24 to 27.\<close>

definition storage_request ::
  "string \<Rightarrow> pynum list option \<Rightarrow> dtype option \<Rightarrow> initializer option \<Rightarrow> nat option \<Rightarrow> bool \<Rightarrow>
   nat list \<Rightarrow> getter_args" where
  "storage_request name shape dtype initializer regularizer trainable extra =
    (let storage_dtype = (if trainable then Some Float32 else dtype) in
     \<lparr>ga_name = name, ga_shape = shape, ga_dtype = storage_dtype,
      ga_initializer = initializer, ga_regularizer = regularizer,
      ga_trainable = trainable, ga_extra = extra\<rparr>)"

definition float32_variable_storage_getter ::
  "getter option \<Rightarrow> string option \<Rightarrow> pynum list option \<Rightarrow> dtype option \<Rightarrow> initializer option \<Rightarrow>
   nat option \<Rightarrow> bool \<Rightarrow> nat list \<Rightarrow> error + tensor" where
  "float32_variable_storage_getter getter name shape dtype initializer regularizer trainable extra =
    (case (getter, name) of
       (Some g, Some n) \<Rightarrow>
         e_bind (g (storage_request n shape dtype initializer regularizer trainable extra))
           (\<lambda>variable.
              Inr (if trainable \<and> dtype \<noteq> Some Float32 then TCast variable dtype else variable))
     | _ \<Rightarrow> Inl (TypeError ''missing required positional arguments''))"

section \<open>What the module imports\<close>

text \<open>
  The helpers \<open>get_tf_version_tuple\<close>, \<open>shape2d\<close>, \<open>shape4d\<close> and \<open>get_data_format\<close> are
  imported from other modules; they are parameters of the model, each free to raise.
  \<open>conv2d_raises\<close> tells whether the framework's \<open>tf.nn.conv2d\<close> raises on given arguments
  (the module catches its \<open>ValueError\<close>). The other framework primitives build their node.
\<close>

record env =
  get_tf_version_tuple :: version
  shape2d :: "pyarg \<Rightarrow> error + int list"
  shape4d :: "pyarg \<Rightarrow> string \<Rightarrow> error + int list"
  get_data_format :: "string \<Rightarrow> bool \<Rightarrow> error + string"
  conv2d_raises :: "tensor \<Rightarrow> tensor \<Rightarrow> int list \<Rightarrow> string \<Rightarrow> conv_kwargs \<Rightarrow> error option"

text \<open>
  The names bound at module level: the imports of lines 7 to 12, \<open>__all__\<close>, and the
  four definitions. Reading any other name raises \<open>NameError\<close>.
\<close>

definition module_globals :: "string list" where
  "module_globals =
    [''tf'', ''get_tf_version_tuple'', ''get_data_format'', ''shape2d'', ''shape4d'',
     ''VariableHolder'', ''layer_register'', ''convert_to_tflayer_args'', ''rename_get_variable'',
     ''__all__'', ''float32_variable_storage_getter'', ''Conv2D'', ''Conv2DTranspose'', ''Deconv2D'']"

definition lookup_global :: "string \<Rightarrow> error + unit" where
  "lookup_global name = (if name \<in> set module_globals then Inr () else Inl (NameError name))"

text \<open>The function objects of the module, and the object each public name is bound to.\<close>

datatype function_object = DefFloat32VariableStorageGetter | DefConv2D | DefConv2DTranspose

definition all_names :: "string list" where
  "all_names = [''Conv2D'', ''Deconv2D'', ''Conv2DTranspose'']"

definition module_binding :: "string \<Rightarrow> function_object option" where
  "module_binding name =
    (if name = ''float32_variable_storage_getter'' then Some DefFloat32VariableStorageGetter
     else if name = ''Conv2D'' then Some DefConv2D
     else if name = ''Conv2DTranspose'' then Some DefConv2DTranspose
     else if name = ''Deconv2D'' then Some DefConv2DTranspose
     else None)"

section \<open>Framework primitives\<close>

definition nn_conv2d ::
  "env \<Rightarrow> tensor \<Rightarrow> tensor \<Rightarrow> int list \<Rightarrow> string \<Rightarrow> conv_kwargs \<Rightarrow> error + tensor" where
  "nn_conv2d env x w stride pad kw =
    (case conv2d_raises env x w stride pad kw of
       Some e \<Rightarrow> Inl e
     | None \<Rightarrow> Inr (TConv2d x w stride pad kw))"

text \<open>\<open>tf.split(value, n, axis)\<close> with an int \<open>n\<close> returns \<open>n\<close> tensors; it needs \<open>n\<close> positive.\<close>

definition tf_split :: "tensor \<Rightarrow> int \<Rightarrow> nat \<Rightarrow> error + tensor list" where
  "tf_split t n axis =
    (if n \<le> 0 then Inl (ValueError ''num_or_size_splits'')
     else Inr (map (TSplit t n axis) [0..<nat n]))"

text \<open>The list comprehension of line 146: one \<open>tf.nn.conv2d\<close> per pair, in order.\<close>

fun conv2d_each ::
  "env \<Rightarrow> int list \<Rightarrow> string \<Rightarrow> conv_kwargs \<Rightarrow> (tensor \<times> tensor) list \<Rightarrow> error + tensor list" where
  "conv2d_each env stride pad kw [] = Inr []"
| "conv2d_each env stride pad kw ((i, k) # rest) =
    e_bind (nn_conv2d env i k stride pad kw) (\<lambda>c.
    e_bind (conv2d_each env stride pad kw rest) (\<lambda>cs. Inr (c # cs)))"

section \<open>Arguments\<close>

record conv_args =
  inputs :: in_tensor
  filters :: int
  kernel_size :: pyarg
  strides :: pyarg
  padding :: string
  data_format :: string
  activation :: "nat option"
  use_bias :: bool
  kernel_initializer :: "initializer option"
  bias_initializer :: initializer
  kernel_regularizer :: "nat option"
  bias_regularizer :: "nat option"
  activity_regularizer :: "nat option"
  seed :: "int option"

record conv2d_args = conv_args +
  dilation_rate :: pyarg
  split :: int

text \<open>The defaults of the two signatures (lines 44 to 56 and 173 to 183).\<close>

definition Conv2DTranspose_defaults :: "in_tensor \<Rightarrow> int \<Rightarrow> pyarg \<Rightarrow> conv_args" where
  "Conv2DTranspose_defaults i f k =
    \<lparr>inputs = i, filters = f, kernel_size = k, strides = ASeq [1, 1], padding = ''same'',
     data_format = ''channels_last'', activation = None, use_bias = True,
     kernel_initializer = None, bias_initializer = ZerosInitializer,
     kernel_regularizer = None, bias_regularizer = None, activity_regularizer = None,
     seed = None\<rparr>"

definition Conv2D_defaults :: "in_tensor \<Rightarrow> int \<Rightarrow> pyarg \<Rightarrow> conv2d_args" where
  "Conv2D_defaults i f k =
    \<lparr>inputs = i, filters = f, kernel_size = k, strides = ASeq [1, 1], padding = ''same'',
     data_format = ''channels_last'', activation = None, use_bias = True,
     kernel_initializer = None, bias_initializer = ZerosInitializer,
     kernel_regularizer = None, bias_regularizer = None, activity_regularizer = None,
     seed = None, dilation_rate = ASeq [1, 1], split = 1\<rparr>"

text \<open>Lines 70 to 74, and again 196 to 200: the kernel initializer when none is given.\<close>

definition default_kernel_initializer :: "env \<Rightarrow> int option \<Rightarrow> initializer" where
  "default_kernel_initializer env sd =
    (if ver_le (get_tf_version_tuple env) (1, 12) then ContribVarianceScaling 2 sd
     else KerasVarianceScaling 2 ''untruncated_normal'' sd)"

definition resolve_kernel_initializer :: "env \<Rightarrow> initializer option \<Rightarrow> int option \<Rightarrow> initializer" where
  "resolve_kernel_initializer env ki sd =
    (case ki of None \<Rightarrow> default_kernel_initializer env sd | Some k \<Rightarrow> k)"

text \<open>
  Lines 150 to 157, and again 264 to 271: bias, activation, the \<open>output\<close> identity, and the
  variable holder, which gets \<open>W\<close> and then, if \<open>use_bias\<close>, \<open>b\<close>.
\<close>

definition finish_output ::
  "tensor \<Rightarrow> tensor \<Rightarrow> tensor \<Rightarrow> string \<Rightarrow> bool \<Rightarrow> nat option \<Rightarrow> layer_output" where
  "finish_output conv W b df ub act =
    (let r0 = (if ub then TBiasAdd conv b df else conv);
         r1 = (case act of None \<Rightarrow> r0 | Some f \<Rightarrow> TActivation f r0);
         r2 = TIdentity r1 ''output''
     in \<lparr>ret_tensor = r2,
         ret_variables = [(''W'', W)] @ (if ub then [(''b'', b)] else [])\<rparr>)"

text \<open>The keyword arguments handed to a framework layer (lines 80 to 94 and 204 to 217).\<close>

definition layer_config_of :: "'a conv_args_scheme \<Rightarrow> initializer \<Rightarrow> int list option \<Rightarrow> layer_config" where
  "layer_config_of a ki dil =
    \<lparr>lc_filters = filters a, lc_kernel_size = kernel_size a, lc_strides = strides a,
     lc_padding = padding a, lc_data_format = data_format a, lc_dilation_rate = dil,
     lc_activation = activation a, lc_use_bias = use_bias a,
     lc_kernel_initializer = ki, lc_bias_initializer = bias_initializer a,
     lc_kernel_regularizer = kernel_regularizer a, lc_bias_regularizer = bias_regularizer a,
     lc_activity_regularizer = activity_regularizer a\<rparr>"

text \<open>
  Lines 79 to 100 and 203 to 222: the layer is applied under the renaming of \<open>kernel\<close> to
  \<open>W\<close> and of \<open>bias\<close> to \<open>b\<close>, and the holder takes the layer's kernel and bias.
\<close>

definition layer_path :: "layer \<Rightarrow> in_tensor \<Rightarrow> bool \<Rightarrow> effect list \<Rightarrow> (error + layer_output) \<times> effect list" where
  "layer_path l x ub s =
    (let ret = TIdentity (TLayerApply l (TInput x)) ''output''
     in (Inr \<lparr>ret_tensor = ret,
              ret_variables = [(''W'', TLayerKernel l)] @ (if ub then [(''b'', TLayerBias l)] else [])\<rparr>,
         s @ [LayerApply l [(''kernel'', ''W''), (''bias'', ''b'')]]))"

section \<open>Conv2D\<close>

text \<open>What lines 104 to 124 compute before the first variable is requested.\<close>

record group_prep =
  gp_data_format :: string
  gp_channel_axis :: nat
  gp_filter_shape :: "pynum list"
  gp_stride :: "int list"
  gp_kwargs :: conv_kwargs

text \<open>
  Lines 104 to 124, in the order of the source. \<open>dil\<close> is \<open>dilation_rate\<close> after
  \<open>shape2d\<close> (line 75).
\<close>

definition conv2d_group_prepare :: "env \<Rightarrow> conv2d_args \<Rightarrow> int list \<Rightarrow> error + group_prep" where
  "conv2d_group_prepare env a dil =
    e_bind (get_data_format env (data_format a) False) (\<lambda>df.
    let channel_axis = (if df = ''NHWC'' then 3 else 1) in
    case dim_at (static_shape (inputs a)) channel_axis of
      None \<Rightarrow> Inl (AssertionError ''[Conv2D] Input cannot have unknown channel!'')
    | Some in_channel \<Rightarrow>
        e_bind (py_mod in_channel (split a)) (\<lambda>r1.
        e_bind (py_assert (r1 = 0) []) (\<lambda>_.
        e_bind (py_assert (kernel_regularizer a = None \<and> bias_regularizer a = None
                           \<and> activity_regularizer a = None)
                  ''Not supported by group conv or dilated conv!'') (\<lambda>_.
        let out_channel = filters a in
        e_bind (py_mod out_channel (split a)) (\<lambda>r2.
        e_bind (py_assert (r2 = 0) []) (\<lambda>_.
        e_bind (py_assert (dil = [1, 1] \<or> ver_ge (get_tf_version_tuple env) (1, 5))
                  ''TF>=1.5 required for dilated conv.'') (\<lambda>_.
        e_bind (shape2d env (kernel_size a)) (\<lambda>kernel_shape.
        e_bind (py_truediv in_channel (split a)) (\<lambda>q.
        let filter_shape = map PInt kernel_shape @ [q, PInt out_channel] in
        e_bind (shape4d env (strides a) df) (\<lambda>stride.
        e_bind (if ver_ge (get_tf_version_tuple env) (1, 5)
                then e_bind (shape4d env (ASeq dil) df) (\<lambda>d4. Inr (Some d4))
                else Inr None) (\<lambda>dilations.
        Inr \<lparr>gp_data_format = df, gp_channel_axis = channel_axis,
             gp_filter_shape = filter_shape, gp_stride = stride,
             gp_kwargs = \<lparr>kw_data_format = df, kw_dilations = dilations\<rparr>\<rparr>)))))))))))"

text \<open>Lines 144 to 148: the loop over the groups.\<close>

definition loop_group_conv ::
  "env \<Rightarrow> tensor \<Rightarrow> tensor \<Rightarrow> int \<Rightarrow> nat \<Rightarrow> int list \<Rightarrow> string \<Rightarrow> conv_kwargs \<Rightarrow> error + tensor" where
  "loop_group_conv env x W n channel_axis stride pad kw =
    e_bind (tf_split x n channel_axis) (\<lambda>ins.
    e_bind (tf_split W n 3) (\<lambda>kernels.
    e_bind (conv2d_each env stride pad kw (zip ins kernels)) (\<lambda>outputs.
    Inr (TConcat outputs channel_axis))))"

text \<open>
  Lines 132 to 148. The handler of \<open>ValueError\<close> calls \<open>log_once\<close>, which is read from the
  module's globals.
\<close>

definition group_convolve :: "env \<Rightarrow> conv2d_args \<Rightarrow> group_prep \<Rightarrow> tensor \<Rightarrow> error + tensor" where
  "group_convolve env a p W =
    (let x = TInput (inputs a); pad = py_upper (padding a) in
     if split a = 1 then nn_conv2d env x W (gp_stride p) pad (gp_kwargs p)
     else
       e_bind (if ver_ge (get_tf_version_tuple env) (1, 13)
               then (case nn_conv2d env x W (gp_stride p) pad (gp_kwargs p) of
                       Inr c \<Rightarrow> Inr (Some c)
                     | Inl (ValueError m) \<Rightarrow> e_bind (lookup_global ''log_once'') (\<lambda>_. Inr None)
                     | Inl e \<Rightarrow> Inl e)
               else Inr None) (\<lambda>conv.
       case conv of
         Some c \<Rightarrow> Inr c
       | None \<Rightarrow> loop_group_conv env x W (split a) (gp_channel_axis p) (gp_stride p) pad (gp_kwargs p)))"

text \<open>Lines 103 to 157: the branch for grouped or dilated convolution.\<close>

definition conv2d_group_path ::
  "env \<Rightarrow> conv2d_args \<Rightarrow> initializer \<Rightarrow> int list \<Rightarrow> effect list \<Rightarrow> (error + layer_output) \<times> effect list" where
  "conv2d_group_path env a ki dil s =
    (case conv2d_group_prepare env a dil of
       Inl e \<Rightarrow> (Inl e, s)
     | Inr p \<Rightarrow>
         (let W = TVariable ''W'' (gp_filter_shape p) ki None;
              s1 = s @ [GetVariable ''W'' (gp_filter_shape p) ki None];
              b = TVariable ''b'' [PInt (filters a)] (bias_initializer a) None;
              s2 = (if use_bias a
                    then s1 @ [GetVariable ''b'' [PInt (filters a)] (bias_initializer a) None]
                    else s1)
          in (e_bind (group_convolve env a p W) (\<lambda>conv.
                Inr (finish_output conv W b (gp_data_format p) (use_bias a) (activation a))),
              s2)))"

text \<open>
  \<open>Conv2D\<close>, lines 70 to 158. The graph built so far is threaded through; the result is
  the returned tensor or the exception raised.
\<close>

definition Conv2D :: "env \<Rightarrow> conv2d_args \<Rightarrow> effect list \<Rightarrow> (error + layer_output) \<times> effect list" where
  "Conv2D env a s =
    (let ki = resolve_kernel_initializer env (kernel_initializer a) (seed a) in
     case shape2d env (dilation_rate a) of
       Inl e \<Rightarrow> (Inl e, s)
     | Inr dil \<Rightarrow>
         if split a = 1 \<and> dil = [1, 1]
         then layer_path (LayersConv2D (layer_config_of a ki (Some dil))) (inputs a) (use_bias a) s
         else conv2d_group_path env a ki dil s)"

section \<open>Conv2DTranspose\<close>

record transpose_prep =
  tp_data_format :: string
  tp_channels_in :: "int option"
  tp_out_shape_dyn :: "scalar list"
  tp_out_shape3_sta :: "int option list"
  tp_kernel_shape :: "int list"

definition dim_mul :: "int option \<Rightarrow> int \<Rightarrow> int option" where
  "dim_mul d k = (case d of None \<Rightarrow> None | Some n \<Rightarrow> Some (n * k))"

definition dim_num :: "int option \<Rightarrow> pynum" where
  "dim_num d = (case d of None \<Rightarrow> PNone | Some n \<Rightarrow> PInt n)"

text \<open>Lines 227 to 251.\<close>

definition transpose_prepare :: "env \<Rightarrow> conv_args \<Rightarrow> error + transpose_prep" where
  "transpose_prepare env a =
    e_bind (get_data_format env (data_format a) False) (\<lambda>df.
    let x = inputs a; sh = static_shape x in
    e_bind (shape2d env (strides a)) (\<lambda>strides2d.
    e_bind (py_index strides2d 0) (\<lambda>s0.
    e_bind (py_index strides2d 1) (\<lambda>s1.
    let channels_in = (if df = ''NCHW'' then dim_at sh 1 else dim_at sh 3);
        out_shape_dyn =
          (if df = ''NCHW''
           then [ShapeDyn x 0, SInt (filters a), SMul (ShapeDyn x 2) s0, SMul (ShapeDyn x 3) s1]
           else [ShapeDyn x 0, SMul (ShapeDyn x 1) s0, SMul (ShapeDyn x 2) s1, SInt (filters a)]);
        out_shape3_sta =
          (if df = ''NCHW''
           then [Some (filters a), dim_mul (dim_at sh 2) s0, dim_mul (dim_at sh 3) s1]
           else [dim_mul (dim_at sh 1) s0, dim_mul (dim_at sh 2) s1, Some (filters a)]) in
    e_bind (shape2d env (kernel_size a)) (\<lambda>kernel_shape.
    Inr \<lparr>tp_data_format = df, tp_channels_in = channels_in, tp_out_shape_dyn = out_shape_dyn,
         tp_out_shape3_sta = out_shape3_sta, tp_kernel_shape = kernel_shape\<rparr>)))))"

text \<open>
  Lines 252 and 255: the value given as \<open>custom_getter\<close> is the result of the call
  \<open>float32_variable_storage_getter(dtype=tf.float16)\<close>. (Each of the two lines has a
  doubled comma after the first argument, read here as one.)
\<close>

definition scope_custom_getter :: "error + tensor" where
  "scope_custom_getter =
    float32_variable_storage_getter None None None (Some Float16) None None True []"

text \<open>Lines 224 to 271: the module's own transposed convolution.\<close>

definition transpose_own_path ::
  "env \<Rightarrow> conv_args \<Rightarrow> initializer \<Rightarrow> effect list \<Rightarrow> (error + layer_output) \<times> effect list" where
  "transpose_own_path env a ki s =
    (case e_bind (py_assert (kernel_regularizer a = None \<and> bias_regularizer a = None
                             \<and> activity_regularizer a = None)
                    ''Unsupported arguments due to Keras bug in TensorFlow 1.13'')
            (\<lambda>_. transpose_prepare env a) of
       Inl e \<Rightarrow> (Inl e, s)
     | Inr p \<Rightarrow>
        (case scope_custom_getter of
           Inl e \<Rightarrow> (Inl e, s)
         | Inr g \<Rightarrow>
            (let w_shape = map PInt (tp_kernel_shape p) @ [PInt (filters a), dim_num (tp_channels_in p)];
                 W = TVariable ''W'' w_shape ki (Some g);
                 s1 = s @ [GetVariable ''W'' w_shape ki (Some g)]
             in case (if use_bias a then e_bind scope_custom_getter (\<lambda>g2. Inr (Some g2)) else Inr None) of
                  Inl e \<Rightarrow> (Inl e, s1)
                | Inr gb \<Rightarrow>
                   (let b = TVariable ''b'' [PInt (filters a)] (bias_initializer a) gb;
                        s2 = (if use_bias a
                              then s1 @ [GetVariable ''b'' [PInt (filters a)] (bias_initializer a) gb]
                              else s1)
                    in (e_bind (shape4d env (strides a) (tp_data_format p)) (\<lambda>stride.
                        let conv = TConv2dTranspose (TInput (inputs a)) W (tp_out_shape_dyn p) stride
                                     (py_upper (padding a)) (tp_data_format p);
                            conv' = TSetShape conv (None # tp_out_shape3_sta p)
                        in Inr (finish_output conv' W b (tp_data_format p) (use_bias a) (activation a))),
                        s2)))))"

text \<open>\<open>Conv2DTranspose\<close>, lines 196 to 273.\<close>

definition Conv2DTranspose :: "env \<Rightarrow> conv_args \<Rightarrow> effect list \<Rightarrow> (error + layer_output) \<times> effect list" where
  "Conv2DTranspose env a s =
    (let ki = resolve_kernel_initializer env (kernel_initializer a) (seed a) in
     if ver_le (get_tf_version_tuple env) (1, 12)
     then layer_path (LayersConv2DTranspose (layer_config_of a ki None)) (inputs a) (use_bias a) s
     else transpose_own_path env a ki s)"

text \<open>Line 276: \<open>Deconv2D = Conv2DTranspose\<close>.\<close>

definition Deconv2D :: "env \<Rightarrow> conv_args \<Rightarrow> effect list \<Rightarrow> (error + layer_output) \<times> effect list" where
  "Deconv2D = Conv2DTranspose"

section \<open>A concrete environment\<close>

text \<open>
  An instance of the imported helpers, for running the model on concrete calls. The
  helpers are defined in \<^verbatim>\<open>tensorpack/utils/argtools.py\<close>, outside this module; the
  instance gives them the behaviour their call sites rely on: \<open>shape2d\<close> makes a
  two-element list of an int or of a pair, \<open>get_data_format\<close> with \<open>tfmode=False\<close> gives
  \<open>NHWC\<close> or \<open>NCHW\<close>, \<open>shape4d\<close> pads a 2-D size with ones to the four axes of the
  data format. The general theorems hold for every instance of the helpers.
\<close>

definition sample_shape2d :: "pyarg \<Rightarrow> error + int list" where
  "sample_shape2d a =
    (case a of
       AInt n \<Rightarrow> Inr [n, n]
     | ASeq xs \<Rightarrow> if length xs = 2 then Inr xs else Inl (AssertionError []))"

definition sample_get_data_format :: "string \<Rightarrow> bool \<Rightarrow> error + string" where
  "sample_get_data_format df tfmode =
    (if tfmode then
       (if df = ''NCHW'' \<or> df = ''channels_first'' then Inr ''channels_first''
        else if df = ''NHWC'' \<or> df = ''channels_last'' then Inr ''channels_last''
        else Inl (ValueError ''Unknown data_format''))
     else
       (if df = ''NCHW'' \<or> df = ''channels_first'' then Inr ''NCHW''
        else if df = ''NHWC'' \<or> df = ''channels_last'' then Inr ''NHWC''
        else Inl (ValueError ''Unknown data_format'')))"

definition sample_shape4d :: "pyarg \<Rightarrow> string \<Rightarrow> error + int list" where
  "sample_shape4d a df =
    e_bind (sample_shape2d a) (\<lambda>s2d.
    e_bind (sample_get_data_format df False) (\<lambda>f.
    Inr (if f = ''NHWC'' then [1] @ s2d @ [1] else [1, 1] @ s2d)))"

text \<open>A framework whose \<open>tf.nn.conv2d\<close> never raises.\<close>

definition sample_env :: "version \<Rightarrow> env" where
  "sample_env v =
    \<lparr>get_tf_version_tuple = v, shape2d = sample_shape2d, shape4d = sample_shape4d,
     get_data_format = sample_get_data_format,
     conv2d_raises = (\<lambda>x w stride pad kw. None)\<rparr>"

text \<open>
  A framework without grouped convolution in \<open>tf.nn.conv2d\<close>: the call raises
  \<open>ValueError\<close> when the filter's input depth differs from the channels of a layer input.
\<close>

definition no_group_support :: "tensor \<Rightarrow> tensor \<Rightarrow> int list \<Rightarrow> string \<Rightarrow> conv_kwargs \<Rightarrow> error option" where
  "no_group_support x w stride pad kw =
    (case (x, w) of
       (TInput t, TVariable n [kh, kw', cin, cout] i g) \<Rightarrow>
         (case dim_at (static_shape t) (if kw_data_format kw = ''NHWC'' then 3 else 1) of
            None \<Rightarrow> None
          | Some c \<Rightarrow>
              if cin = PInt c \<or> cin = PFloat (of_int c) then None
              else Some (ValueError ''input depth differs from the filter's''))
     | _ \<Rightarrow> None)"

definition sample_env_no_groups :: "version \<Rightarrow> env" where
  "sample_env_no_groups v = (sample_env v)\<lparr>conv2d_raises := no_group_support\<rparr>"

text \<open>An input of static shape \<open>[None, 8, 8, 4]\<close>.\<close>

definition sample_input :: in_tensor where
  "sample_input = \<lparr>tensor_id = 0, static_shape = (None, Some 8, Some 8, Some 4)\<rparr>"

section \<open>Observations on results\<close>

text \<open>
  The primitive that computes the convolution of a returned tensor, found under the bias,
  activation, identity and static-shape nodes that the module wraps around it.
\<close>

datatype conv_path = FrameworkLayer | DirectPrimitive | LoopFallback | TransposePrimitive

fun is_conv2d :: "tensor \<Rightarrow> bool" where
  "is_conv2d (TConv2d x w stride pad kw) = True"
| "is_conv2d _ = False"

fun conv_path_of :: "tensor \<Rightarrow> conv_path option" where
  "conv_path_of (TLayerApply l x) = Some FrameworkLayer"
| "conv_path_of (TConv2d x w stride pad kw) = Some DirectPrimitive"
| "conv_path_of (TConcat ts axis) = (if ts \<noteq> [] \<and> list_all is_conv2d ts then Some LoopFallback else None)"
| "conv_path_of (TConv2dTranspose x w out_shape stride pad df) = Some TransposePrimitive"
| "conv_path_of (TIdentity t n) = conv_path_of t"
| "conv_path_of (TActivation f t) = conv_path_of t"
| "conv_path_of (TBiasAdd t b df) = conv_path_of t"
| "conv_path_of (TSetShape t sh) = conv_path_of t"
| "conv_path_of _ = None"

definition call_path :: "(error + layer_output) \<times> effect list \<Rightarrow> conv_path option" where
  "call_path res = (case fst res of Inl e \<Rightarrow> None | Inr r \<Rightarrow> conv_path_of (ret_tensor r))"






section \<open>Auxiliary lemmas\<close>

lemma e_bind_Inr [simp]: "e_bind (Inr x) f = f x" by (simp add: e_bind_def)
lemma e_bind_Inl [simp]: "e_bind (Inl e) f = Inl e" by (simp add: e_bind_def)













subsection \<open>The checks of the grouped branch\<close>



subsection \<open>The two branches of Conv2D\<close>













lemma group_convolve_value_error:
  assumes "split a \<noteq> 1" and "ver_ge (get_tf_version_tuple env) (1, 13)"
    and "conv2d_raises env (TInput (inputs a)) W (gp_stride p) (py_upper (padding a)) (gp_kwargs p)
           = Some (ValueError m)"
  shows "group_convolve env a p W = Inl (NameError ''log_once'')"
  using assms
  by (simp add: group_convolve_def nn_conv2d_def Let_def lookup_global_def module_globals_def)


section \<open>The custom getter and the public names\<close>



text \<open>
  Claim C7. The public names are \<open>Conv2D\<close>, \<open>Deconv2D\<close> and \<open>Conv2DTranspose\<close>; they are
  bound to two distinct function objects, \<open>Deconv2D\<close> to the same one as
  \<open>Conv2DTranspose\<close>, so the two give the same result on every input.
\<close>

theorem deconv2d_is_conv2dtranspose:
  "Deconv2D env a s = Conv2DTranspose env a s
   \<and> module_binding ''Deconv2D'' = module_binding ''Conv2DTranspose''
   \<and> set (map module_binding all_names) = {Some DefConv2D, Some DefConv2DTranspose}
   \<and> DefConv2D \<noteq> DefConv2DTranspose
   \<and> distinct all_names \<and> length all_names = 3"
  by (simp add: Deconv2D_def module_binding_def all_names_def)

section \<open>Defects of the newer-version paths\<close>

text \<open>
  Claim C4. On a framework version above (1, 12) \<open>Conv2DTranspose\<close> is meant to create
  \<open>W\<close>, call \<open>tf.nn.conv2d_transpose\<close> and return the result. It does not get there: the
  call of \<open>float32_variable_storage_getter\<close> of line 252 lacks the two required arguments,
  so a call with 3 by 3 kernels, 6 filters and stride 2 on version (1, 13) raises
  \<open>TypeError\<close> before any variable is created.
\<close>

theorem transpose_own_path_type_error:
  "Conv2DTranspose (sample_env (1, 13))
     ((Conv2DTranspose_defaults sample_input 6 (AInt 3))\<lparr>strides := AInt 2\<rparr>) []
   = (Inl (TypeError ''missing required positional arguments''), [])"
  by code_simp

text \<open>
  Claim C2. With \<open>split = 2\<close> on version (1, 13), where the direct grouped
  \<open>tf.nn.conv2d\<close> raises \<open>ValueError\<close>, the call does not fall back to the loop over the
  groups: the handler reads the unbound name \<open>log_once\<close> and the call raises \<open>NameError\<close>,
  after \<open>W\<close> and \<open>b\<close> have been created.
\<close>

theorem grouped_fallback_name_error:
  "no_group_support (TInput sample_input)
      (TVariable ''W'' [PInt 3, PInt 3, PFloat 2, PInt 6]
         (KerasVarianceScaling 2 ''untruncated_normal'' None) None)
      [1, 1, 1, 1] ''SAME'' \<lparr>kw_data_format = ''NHWC'', kw_dilations = Some [1, 1, 1, 1]\<rparr>
     = Some (ValueError ''input depth differs from the filter's'')
   \<and> Conv2D (sample_env_no_groups (1, 13))
       ((Conv2D_defaults sample_input 6 (AInt 3))\<lparr>split := 2\<rparr>) []
     = (Inl (NameError ''log_once''),
        [GetVariable ''W'' [PInt 3, PInt 3, PFloat 2, PInt 6]
           (KerasVarianceScaling 2 ''untruncated_normal'' None) None,
         GetVariable ''b'' [PInt 6] ZerosInitializer None])"
  by code_simp

section \<open>The grouped and dilated branch\<close>


lemma call_path_Inr: "fst res = Inr r \<Longrightarrow> call_path res = conv_path_of (ret_tensor r)"
  by (simp add: call_path_def)


















section \<open>Dispatch\<close>





section \<open>Names and default initializers\<close>












end
